theory Spec2Isabelle
  imports Complex_Main "HOL-Library.Multiset"
begin

section \<open>JavaScript values used by the backend\<close>

text \<open>
  The backend (\<^verbatim>\<open>src/lib/zabbix.js\<close>) computes with JavaScript numbers and with
  \<^verbatim>\<open>undefined\<close>. Finite numbers are modelled as exact rationals: rounding of
  doubles, overflow and the sign of zero are not represented. The three special numbers
  and \<^verbatim>\<open>undefined\<close> are constructors of their own, since the timer generator reads
  arrays out of range and divides by zero.
\<close>

datatype jsval = Undefined | NaN | PosInf | NegInf | Num rat

text \<open>\<^verbatim>\<open>a + b\<close> on two values that are numbers or \<^verbatim>\<open>undefined\<close>.\<close>

fun js_add :: "jsval \<Rightarrow> jsval \<Rightarrow> jsval" where
  "js_add (Num a) (Num b) = Num (a + b)"
| "js_add PosInf (Num b) = PosInf"
| "js_add (Num a) PosInf = PosInf"
| "js_add PosInf PosInf = PosInf"
| "js_add NegInf (Num b) = NegInf"
| "js_add (Num a) NegInf = NegInf"
| "js_add NegInf NegInf = NegInf"
| "js_add _ _ = NaN"

text \<open>\<^verbatim>\<open>a / b\<close> for a finite divisor \<open>b\<close>.\<close>

fun js_div :: "jsval \<Rightarrow> rat \<Rightarrow> jsval" where
  "js_div (Num a) b =
     (if b = 0 then (if a = 0 then NaN else if 0 < a then PosInf else NegInf)
      else Num (a / b))"
| "js_div PosInf b = (if b < 0 then NegInf else PosInf)"
| "js_div NegInf b = (if b < 0 then PosInf else NegInf)"
| "js_div _ b = NaN"

text \<open>\<^verbatim>\<open>v || 0\<close>: zero, \<^verbatim>\<open>NaN\<close> and \<^verbatim>\<open>undefined\<close> are falsy.\<close>

fun or_zero :: "jsval \<Rightarrow> jsval" where
  "or_zero (Num a) = Num a"
| "or_zero PosInf = PosInf"
| "or_zero NegInf = NegInf"
| "or_zero _ = Num 0"

text \<open>\<^verbatim>\<open>Math.round\<close>: the nearest integer, a tie going towards plus infinity.\<close>

definition js_round :: "rat \<Rightarrow> int" where
  "js_round x = \<lfloor>x + 1 / 2\<rfloor>"

text \<open>\<^verbatim>\<open>xs[i]\<close> on an array of numbers: \<^verbatim>\<open>undefined\<close> out of range.\<close>

definition js_index :: "rat list \<Rightarrow> int \<Rightarrow> jsval" where
  "js_index xs i = (if 0 \<le> i \<and> i < int (length xs) then Num (xs ! nat i) else Undefined)"

text \<open>\<^verbatim>\<open>xs.slice(0, e)\<close>: a negative end counts from the end of the array.\<close>

definition js_slice0 :: "'a list \<Rightarrow> int \<Rightarrow> 'a list" where
  "js_slice0 xs e =
     (let len = int (length xs);
          k = (if e < 0 then max (len + e) 0 else min e len)
      in take (nat k) xs)"

subsection \<open>Strings\<close>

text \<open>\<^verbatim>\<open>s.startsWith(p)\<close>.\<close>

definition startsWith :: "string \<Rightarrow> string \<Rightarrow> bool" where
  "startsWith s p = (take (length p) s = p)"

text \<open>
  \<^verbatim>\<open>s.split(c)\<close> for a one-character separator: the pieces between the separators,
  empty pieces included, so the result is never empty.
\<close>

fun split_on :: "char \<Rightarrow> string \<Rightarrow> string list" where
  "split_on c [] = [[]]"
| "split_on c (x # xs) =
     (if x = c then [] # split_on c xs
      else (case split_on c xs of
              [] \<Rightarrow> [[x]]
            | p # ps \<Rightarrow> (x # p) # ps))"

text \<open>\<^verbatim>\<open>s.replace(/_/g, '.')\<close>: every underscore becomes a period.\<close>

definition replace_underscores :: "string \<Rightarrow> string" where
  "replace_underscores s = map (\<lambda>c. if c = CHR ''_'' then CHR ''.'' else c) s"

text \<open>\<^verbatim>\<open>s.replace('.', '_')\<close> with a string pattern: only the first period is replaced.\<close>

fun replace_first_period :: "string \<Rightarrow> string" where
  "replace_first_period [] = []"
| "replace_first_period (x # xs) =
     (if x = CHR ''.'' then CHR ''_'' # xs else x # replace_first_period xs)"

text \<open>
  Decimal text of numbers, as \<^verbatim>\<open>toString\<close> and template literals produce it.
  \<open>number_toString\<close> writes the integer part and then the decimal places, at most 17 of
  them; it agrees with JavaScript on integers below \<open>10^21\<close> and on short decimals such as
  \<open>99.9\<close>, and does not model exponent notation.
\<close>

definition digit_char :: "nat \<Rightarrow> char" where
  "digit_char d = ''0123456789'' ! (d mod 10)"

fun nat_toString :: "nat \<Rightarrow> string" where
  "nat_toString n =
     (if n < 10 then [digit_char n] else nat_toString (n div 10) @ [digit_char (n mod 10)])"

declare nat_toString.simps [simp del]

fun frac_digits :: "nat \<Rightarrow> rat \<Rightarrow> string" where
  "frac_digits 0 r = []"
| "frac_digits (Suc fuel) r =
     (if r = 0 then []
      else (let d = \<lfloor>r * 10\<rfloor>
            in digit_char (nat d) # frac_digits fuel (r * 10 - of_int d)))"

definition number_toString :: "rat \<Rightarrow> string" where
  "number_toString r =
     (let a = \<bar>r\<bar>; ip = \<lfloor>a\<rfloor>; fp = a - of_int ip
      in (if r < 0 then ''-'' else '''') @ nat_toString (nat ip)
         @ (if fp = 0 then '''' else ''.'' @ frac_digits 17 fp))"

definition int_toString :: "int \<Rightarrow> string" where
  "int_toString i = number_toString (of_int i)"

fun jsval_toString :: "jsval \<Rightarrow> string" where
  "jsval_toString Undefined = ''undefined''"
| "jsval_toString NaN = ''NaN''"
| "jsval_toString PosInf = ''Infinity''"
| "jsval_toString NegInf = ''-Infinity''"
| "jsval_toString (Num r) = number_toString r"

section \<open>Targets\<close>

record target =
  target_host :: string
  target_key :: string

text \<open>
  \<^verbatim>\<open>targetDecode(stat)\<close>. The process hostname (\<^verbatim>\<open>os.hostname()\<close>) is a
  parameter. The destructuring \<^verbatim>\<open>[host, key] = stat.split('_')\<close> takes the first two
  pieces and leaves \<open>key\<close> undefined when there is only one; the thrown
  \<^verbatim>\<open>Error\<close> is the left injection, carrying its message.
\<close>

definition targetDecode :: "string \<Rightarrow> string \<Rightarrow> string + target" where
  "targetDecode hostname stat =
     (let parts = split_on CHR ''.'' stat;
          (host, key) =
            (if (startsWith stat ''logstash.'' \<or> startsWith stat ''kamon.'')
                \<and> length parts = 3
             then (let namespace = parts ! 0; host = parts ! 1; key = parts ! 2
                   in if namespace = ''logstash''
                      then (Some (replace_underscores host), Some (replace_underscores key))
                      else if namespace = ''kamon''
                      then (Some (replace_underscores host), Some key)
                      else (Some host, Some key))
             else if startsWith stat ''statsd.''
             then (Some hostname, Some stat)
             else (case split_on CHR ''_'' stat of
                     [] \<Rightarrow> (None, None)
                   | [h] \<Rightarrow> (Some h, None)
                   | h # k # rest \<Rightarrow> (Some h, Some k)))
      in (case (host, key) of
            (Some h, Some k) \<Rightarrow>
              (if h = [] \<or> k = [] then Inl (''failed to decode stat: '' @ stat)
               else Inr \<lparr>target_host = h, target_key = k\<rparr>)
          | _ \<Rightarrow> Inl (''failed to decode stat: '' @ stat)))"

text \<open>\<^verbatim>\<open>targetStatic(host, stat)\<close>.\<close>

definition targetStatic :: "string \<Rightarrow> string \<Rightarrow> string + target" where
  "targetStatic host stat = Inr \<lparr>target_host = host, target_key = stat\<rparr>"

section \<open>Item generators\<close>

text \<open>A data point \<^verbatim>\<open>{host, key, value}\<close>.\<close>

record item =
  item_host :: string
  item_key :: string
  item_value :: jsval

text \<open>
  The publishing options of one category are an object of true/false flags, or
  \<^verbatim>\<open>undefined\<close> when the category has no entry.
\<close>

type_synonym settings = "(string \<rightharpoonup> bool) option"

text \<open>\<^verbatim>\<open>readSetting(settings, settingName, defaultValue)\<close>.\<close>

definition readSetting :: "settings \<Rightarrow> string \<Rightarrow> bool \<Rightarrow> bool" where
  "readSetting settings settingName defaultValue =
     (case settings of
        None \<Rightarrow> defaultValue
      | Some opts \<Rightarrow>
          (case opts settingName of
             None \<Rightarrow> defaultValue
           | Some optValue \<Rightarrow> optValue))"

text \<open>\<^verbatim>\<open>itemsForCounter(publishOpts, flushInterval, host, key, value)\<close>.\<close>

definition itemsForCounter :: "settings \<Rightarrow> rat \<Rightarrow> string \<Rightarrow> string \<Rightarrow> rat \<Rightarrow> item list" where
  "itemsForCounter publishOpts flushInterval host key v =
     (if readSetting publishOpts ''enabled'' True
      then (let avg = js_div (Num v) (flushInterval / 1000);
                items1 = (if readSetting publishOpts ''send_total'' True
                          then [\<lparr>item_host = host, item_key = key @ ''[total]'',
                                 item_value = Num v\<rparr>]
                          else []);
                items2 = (if readSetting publishOpts ''send_avg'' True
                          then items1 @ [\<lparr>item_host = host, item_key = key @ ''[avg]'',
                                          item_value = avg\<rparr>]
                          else items1)
            in items2)
      else [])"

text \<open>\<^verbatim>\<open>itemsForGauge(publishOpts, host, key, value)\<close>.\<close>

definition itemsForGauge :: "settings \<Rightarrow> string \<Rightarrow> string \<Rightarrow> rat \<Rightarrow> item list" where
  "itemsForGauge publishOpts host key v =
     (if readSetting publishOpts ''enabled'' True
      then [\<lparr>item_host = host, item_key = key, item_value = Num v\<rparr>]
      else [])"

subsection \<open>Timers\<close>

text \<open>
  The percentile arithmetic of \<^verbatim>\<open>itemsForTimer\<close>:
  \<^verbatim>\<open>thresholdIndex = Math.round(((100 - percentile) / 100) * count)\<close> and
  \<^verbatim>\<open>numInThreshold = count - thresholdIndex\<close>.
\<close>

definition thresholdIndex :: "rat \<Rightarrow> nat \<Rightarrow> int" where
  "thresholdIndex percentile cnt = js_round (((100 - percentile) / 100) * of_nat cnt)"

definition numInThreshold :: "rat \<Rightarrow> nat \<Rightarrow> int" where
  "numInThreshold percentile cnt = int cnt - thresholdIndex percentile cnt"

text \<open>
  The summing loop
  \<^verbatim>\<open>for (let i = 0; i < numInThreshold; i += 1) sum += percentValues[i]\<close>,
  starting from \<open>sum = 0\<close>.
\<close>

definition sum_loop :: "rat list \<Rightarrow> int \<Rightarrow> jsval" where
  "sum_loop percentValues n =
     fold (\<lambda>i sum. js_add sum (js_index percentValues (int i))) [0..<nat n] (Num 0)"

text \<open>
  One round of \<^verbatim>\<open>percentiles.forEach\<close>. The variables \<open>mean\<close> and
  \<open>maxAtThreshold\<close> are declared outside the loop, so they are part of the loop state
  together with the items pushed so far.
\<close>

definition percentile_step ::
  "bool \<Rightarrow> bool \<Rightarrow> string \<Rightarrow> string \<Rightarrow> rat list \<Rightarrow> rat
     \<Rightarrow> jsval \<times> jsval \<times> item list \<Rightarrow> jsval \<times> jsval \<times> item list" where
  "percentile_step sendMeanPercentile sendUpperPercentile host key vals percentile st =
     (case st of (mean0, maxAtThreshold0, items) \<Rightarrow>
        (let strPercentile = replace_first_period (number_toString percentile);
             count = length vals;
             (mean, maxAtThreshold) =
               (if 1 < count
                then (let n = numInThreshold percentile count;
                          percentValues = js_slice0 vals n
                      in (js_div (sum_loop percentValues n) (of_int n),
                          js_index percentValues (n - 1)))
                else (mean0, maxAtThreshold0));
             items1 = (if sendMeanPercentile
                       then items @ [\<lparr>item_host = host,
                                       item_key = key @ ''[mean]['' @ strPercentile @ '']'',
                                       item_value = or_zero mean\<rparr>]
                       else items);
             items2 = (if sendUpperPercentile
                       then items1 @ [\<lparr>item_host = host,
                                        item_key = key @ ''[upper]['' @ strPercentile @ '']'',
                                        item_value = or_zero maxAtThreshold\<rparr>]
                       else items1)
         in (mean, maxAtThreshold, items2)))"

text \<open>
  \<^verbatim>\<open>itemsForTimer(publishOpts, percentiles, host, key, data)\<close>.
  \<^verbatim>\<open>data.sort((a, b) => (a - b))\<close> sorts the caller's array in place and returns it,
  so the model returns the items together with the array as the call leaves it. On
  finite numbers the comparator gives the ascending order, which is \<^const>\<open>sort\<close>.
\<close>

definition itemsForTimer ::
  "settings \<Rightarrow> rat list \<Rightarrow> string \<Rightarrow> string \<Rightarrow> rat list \<Rightarrow> item list \<times> rat list" where
  "itemsForTimer publishOpts percentiles host key data =
     (if readSetting publishOpts ''enabled'' True
      then (let vals = sort data;
                count = length vals;
                minv = js_index vals 0;
                maxv = js_index vals (int count - 1);
                items1 = (if readSetting publishOpts ''send_lower'' True
                          then [\<lparr>item_host = host, item_key = key @ ''[lower]'',
                                 item_value = or_zero minv\<rparr>]
                          else []);
                items2 = (if readSetting publishOpts ''send_upper'' True
                          then items1 @ [\<lparr>item_host = host, item_key = key @ ''[upper]'',
                                          item_value = or_zero maxv\<rparr>]
                          else items1);
                items3 = (if readSetting publishOpts ''send_count'' True
                          then items2 @ [\<lparr>item_host = host, item_key = key @ ''[count]'',
                                          item_value = Num (of_nat count)\<rparr>]
                          else items2);
                sendMeanPercentile = readSetting publishOpts ''send_mean_percentile'' True;
                sendUpperPercentile = readSetting publishOpts ''send_upper_percentile'' True;
                sendPercentile = (sendMeanPercentile \<or> sendUpperPercentile);
                items4 = (if sendPercentile
                          then snd (snd (fold
                                 (percentile_step sendMeanPercentile sendUpperPercentile
                                    host key vals)
                                 percentiles (minv, maxv, items3)))
                          else items3)
            in (items4, vals))
      else ([], data))"

section \<open>Flushing\<close>

text \<open>
  The module state: the \<^verbatim>\<open>stats\<close> object as \<^verbatim>\<open>init\<close> sets it up, what has
  reached the logger \<^verbatim>\<open>l.log(msg, level)\<close>, and the system clock. The clock is a
  sequence of readings in seconds (\<^verbatim>\<open>Math.round(new Date().getTime() / 1000)\<close>), of
  which \<open>ticks\<close> have been consumed; \<open>config_debug\<close> is \<^verbatim>\<open>config.debug\<close>.
\<close>

record stats =
  last_flush :: int
  last_exception :: int
  flush_time :: int
  flush_length :: nat

datatype level = DEBUG | ERROR | INFO

record world =
  stats :: stats
  logged :: "(string \<times> level) list"
  clock :: "nat \<Rightarrow> int"
  ticks :: nat
  config_debug :: bool

text \<open>The \<^verbatim>\<open>stats\<close> object after \<^verbatim>\<open>init\<close>.\<close>

definition init_stats :: stats where
  "init_stats = \<lparr>last_flush = 0, last_exception = 0, flush_time = 0, flush_length = 0\<rparr>"

text \<open>\<^verbatim>\<open>tsNow()\<close>.\<close>

definition tsNow :: "world \<Rightarrow> int \<times> world" where
  "tsNow w = (clock w (ticks w), w\<lparr>ticks := Suc (ticks w)\<rparr>)"

text \<open>The \<^verbatim>\<open>logger\<close> installed by \<^verbatim>\<open>init\<close>, and \<^verbatim>\<open>log(level, msg)\<close>.\<close>

definition logger :: "string \<Rightarrow> level \<Rightarrow> world \<Rightarrow> world" where
  "logger msg lvl w =
     (if lvl = DEBUG \<and> config_debug w = False then w
      else w\<lparr>logged := logged w @ [(msg, lvl)]\<rparr>)"

definition log :: "level \<Rightarrow> string \<Rightarrow> world \<Rightarrow> world" where
  "log lvl msg w = logger (''statsd-zabbix-backend: '' @ msg) lvl w"

abbreviation debug :: "string \<Rightarrow> world \<Rightarrow> world" where
  "debug \<equiv> log DEBUG"

abbreviation error :: "string \<Rightarrow> world \<Rightarrow> world" where
  "error \<equiv> log ERROR"

abbreviation info :: "string \<Rightarrow> world \<Rightarrow> world" where
  "info \<equiv> log INFO"

text \<open>
  The snapshot handed over by StatsD. Each category is the list of its entries in the
  order of \<^verbatim>\<open>Object.keys\<close>.
\<close>

record metrics =
  counters :: "(string \<times> rat) list"
  timers :: "(string \<times> rat list) list"
  gauges :: "(string \<times> rat) list"
  pctThreshold :: "rat list"

text \<open>
  The closure \<^verbatim>\<open>handle(processor, stat, value)\<close> of \<^verbatim>\<open>flush\<close>, on the pair of
  \<^verbatim>\<open>allItems\<close> and the module state. Its \<^verbatim>\<open>try\<close> block holds the call of the
  target builder, the call of the processor and the loop that pushes the returned items.
  The target builder throws an \<^verbatim>\<open>Error\<close>, which the log renders as \<^verbatim>\<open>Error: \<close>
  followed by its message. A processor that throws is the left injection of the text of
  the thrown value; it throws before it returns, so nothing of it is pushed. The logger
  is taken not to throw, so the pushing loop runs to its end. \<open>handle_catch\<close> is the
  \<^verbatim>\<open>catch\<close> block: the time is recorded and the error logged.
\<close>

definition push_item :: "item \<Rightarrow> item list \<times> world \<Rightarrow> item list \<times> world" where
  "push_item it st =
     (case st of (allItems, w) \<Rightarrow>
        (allItems @ [it],
         debug (item_host it @ '' -> '' @ item_key it @ '' -> ''
                  @ jsval_toString (item_value it)) w))"

definition handle_catch :: "string \<Rightarrow> item list \<times> world \<Rightarrow> item list \<times> world" where
  "handle_catch err st =
     (case st of (allItems, w) \<Rightarrow>
        (let (now, w1) = tsNow w;
             w2 = w1\<lparr>stats := (stats w1)\<lparr>last_exception := now\<rparr>\<rparr>
         in (allItems, error err w2)))"

definition handle ::
  "(string \<Rightarrow> string + target) \<Rightarrow> (string \<Rightarrow> string \<Rightarrow> 'v \<Rightarrow> string + item list)
     \<Rightarrow> string \<times> 'v \<Rightarrow> item list \<times> world \<Rightarrow> item list \<times> world" where
  "handle targetBuilder processor entry st =
     (case entry of (stat, v) \<Rightarrow>
        (case targetBuilder stat of
           Inl msg \<Rightarrow> handle_catch (''Error: '' @ msg) st
         | Inr t \<Rightarrow>
             (case processor (target_host t) (target_key t) v of
                Inl err \<Rightarrow> handle_catch err st
              | Inr items \<Rightarrow> fold push_item items st)))"

text \<open>
  The transport's response: \<^verbatim>\<open>errors\<close>, \<^verbatim>\<open>statusMessage\<close> and \<^verbatim>\<open>total\<close>, each
  possibly absent.
\<close>

record response =
  errors :: "string list option"
  statusMessage :: "string option"
  total :: "nat option"

text \<open>
  The completion callback that \<^verbatim>\<open>flush\<close> passes to \<^verbatim>\<open>constructSender\<close>. It closes
  over \<^verbatim>\<open>timestamp\<close>, \<^verbatim>\<open>flushStart\<close> and \<^verbatim>\<open>allItems\<close>, of which only the
  length is read.
\<close>

definition flush_callback :: "int \<Rightarrow> int \<Rightarrow> nat \<Rightarrow> response \<Rightarrow> world \<Rightarrow> world" where
  "flush_callback timestamp flushStart nItems resp w =
     (let w1 =
            (case errors resp of
               Some (e # es) \<Rightarrow>
                 (let (now, wa) = tsNow w;
                      wb = wa\<lparr>stats := (stats wa)\<lparr>last_exception := now\<rparr>\<rparr>
                  in error e wb)
             | _ \<Rightarrow>
                 (let wa = w\<lparr>stats := (stats w)\<lparr>last_flush := timestamp\<rparr>\<rparr>;
                      wb = wa\<lparr>stats := (stats wa)\<lparr>flush_time := flushStart - last_flush (stats wa)\<rparr>\<rparr>
                  in debug (''flush completed in '' @ int_toString (flush_time (stats wb))
                              @ '' seconds'') wb));
          w2 = (case statusMessage resp of
                  Some (c # cs) \<Rightarrow> info (c # cs) w1
                | _ \<Rightarrow> w1)
      in w2\<lparr>stats := (stats w2)\<lparr>flush_length :=
              max (case total resp of Some n \<Rightarrow> n | None \<Rightarrow> 0) nItems\<rparr>\<rparr>)"

text \<open>
  \<^verbatim>\<open>flush(targetBuilder, constructSender, publisher, publishItems, flushInterval,
  timestamp, metrics)\<close>. The sender and the publisher are collaborators outside this
  module; the model returns what \<^verbatim>\<open>flush\<close> hands to them: the items given to
  \<^verbatim>\<open>publisher\<close> and the callback given to \<^verbatim>\<open>constructSender\<close>, with the module
  state when \<^verbatim>\<open>publisher\<close> is called.

  \<open>flush_body\<close> is the body of \<^verbatim>\<open>flush\<close> for given processors: the three loops over
  \<^verbatim>\<open>Object.keys\<close>, the update of \<^verbatim>\<open>flush_length\<close> and the construction of the
  callback. \<open>flush\<close> binds the processors as the source does, with
  \<^verbatim>\<open>itemsForCounter.bind\<close>, \<^verbatim>\<open>itemsForTimer.bind\<close> and
  \<^verbatim>\<open>itemsForGauge.bind\<close>. \<^verbatim>\<open>publishItems\<close> maps a property name to the options
  stored under it. On a snapshot of numbers and arrays of numbers the three generators
  return, so the bound processors are right injections. The timer arrays are sorted in
  place by the timer generator; \<^verbatim>\<open>flush\<close> does not read them again, so the sorted
  arrays are dropped here.
\<close>

definition flush_body ::
  "(string \<Rightarrow> string + target)
     \<Rightarrow> (string \<Rightarrow> string \<Rightarrow> rat \<Rightarrow> string + item list)
     \<Rightarrow> (string \<Rightarrow> string \<Rightarrow> rat list \<Rightarrow> string + item list)
     \<Rightarrow> (string \<Rightarrow> string \<Rightarrow> rat \<Rightarrow> string + item list)
     \<Rightarrow> int \<Rightarrow> metrics
     \<Rightarrow> world \<Rightarrow> item list \<times> (response \<Rightarrow> world \<Rightarrow> world) \<times> world" where
  "flush_body targetBuilder counterProcessor timerProcessor guageProcessor timestamp m w =
     (let w0 = debug (''starting flush for timestamp '' @ int_toString timestamp) w;
          (flushStart, w1) = tsNow w0;
          st1 = fold (handle targetBuilder counterProcessor) (counters m) ([], w1);
          st2 = fold (handle targetBuilder timerProcessor) (timers m) st1;
          st3 = fold (handle targetBuilder guageProcessor) (gauges m) st2;
          allItems = fst st3;
          w4 = snd st3;
          w5 = w4\<lparr>stats := (stats w4)\<lparr>flush_length := length allItems\<rparr>\<rparr>;
          w6 = debug (''flushing '' @ nat_toString (flush_length (stats w5))
                        @ '' items to zabbix'') w5
      in (allItems, flush_callback timestamp flushStart (length allItems), w6))"

definition flush ::
  "(string \<Rightarrow> string + target) \<Rightarrow> (string \<rightharpoonup> (string \<rightharpoonup> bool)) \<Rightarrow> rat \<Rightarrow> int \<Rightarrow> metrics
     \<Rightarrow> world \<Rightarrow> item list \<times> (response \<Rightarrow> world \<Rightarrow> world) \<times> world" where
  "flush targetBuilder publishItems flushInterval timestamp m w =
     (let counterProcessor =
            (\<lambda>host key v.
               Inr (itemsForCounter (publishItems ''counters'') flushInterval host key v));
          timerProcessor =
            (\<lambda>host key data.
               Inr (fst (itemsForTimer (publishItems ''timers'') (pctThreshold m)
                           host key data)));
          guageProcessor =
            (\<lambda>host key v. Inr (itemsForGauge (publishItems ''guages'') host key v))
      in flush_body targetBuilder counterProcessor timerProcessor guageProcessor
           timestamp m w)"

section \<open>Notions used in the statements\<close>

text \<open>
  What one snapshot entry contributes to a flush: the items its processor returns when
  the target builder resolves the name and the processor returns, nothing when either
  of them throws.
\<close>

definition stat_items ::
  "(string \<Rightarrow> string + target) \<Rightarrow> (string \<Rightarrow> string \<Rightarrow> 'v \<Rightarrow> string + item list)
     \<Rightarrow> string \<times> 'v \<Rightarrow> item list" where
  "stat_items targetBuilder processor entry =
     (case targetBuilder (fst entry) of
        Inl msg \<Rightarrow> []
      | Inr t \<Rightarrow>
          (case processor (target_host t) (target_key t) (snd entry) of
             Inl err \<Rightarrow> []
           | Inr items \<Rightarrow> items))"

text \<open>An entry fails when its name is not resolved or its processor throws.\<close>

definition entry_fails ::
  "(string \<Rightarrow> string + target) \<Rightarrow> (string \<Rightarrow> string \<Rightarrow> 'v \<Rightarrow> string + item list)
     \<Rightarrow> string \<times> 'v \<Rightarrow> bool" where
  "entry_fails targetBuilder processor entry =
     (case targetBuilder (fst entry) of
        Inl msg \<Rightarrow> True
      | Inr t \<Rightarrow> isl (processor (target_host t) (target_key t) (snd entry)))"

text \<open>The number of failing entries of a snapshot, over the three categories.\<close>

definition failures ::
  "(string \<Rightarrow> string + target)
     \<Rightarrow> (string \<Rightarrow> string \<Rightarrow> rat \<Rightarrow> string + item list)
     \<Rightarrow> (string \<Rightarrow> string \<Rightarrow> rat list \<Rightarrow> string + item list)
     \<Rightarrow> (string \<Rightarrow> string \<Rightarrow> rat \<Rightarrow> string + item list)
     \<Rightarrow> metrics \<Rightarrow> nat" where
  "failures targetBuilder counterProcessor timerProcessor guageProcessor m =
     length (filter (entry_fails targetBuilder counterProcessor) (counters m))
     + length (filter (entry_fails targetBuilder timerProcessor) (timers m))
     + length (filter (entry_fails targetBuilder guageProcessor) (gauges m))"

text \<open>All toggles of the timer category are enabled, by default or explicitly.\<close>

definition timer_toggles_on :: "settings \<Rightarrow> bool" where
  "timer_toggles_on publishOpts =
     (readSetting publishOpts ''enabled'' True
      \<and> readSetting publishOpts ''send_lower'' True
      \<and> readSetting publishOpts ''send_upper'' True
      \<and> readSetting publishOpts ''send_count'' True
      \<and> readSetting publishOpts ''send_mean_percentile'' True
      \<and> readSetting publishOpts ''send_upper_percentile'' True)"

text \<open>
  A state and a snapshot to run the flush on: the state after \<^verbatim>\<open>init\<close> with debug
  logging off, and a snapshot of five metric names, of which \<^verbatim>\<open>nounderscore\<close> cannot
  be decoded.
\<close>

definition example_world :: world where
  "example_world =
     \<lparr>stats = init_stats, logged = [], clock = (\<lambda>n. 1700000000 + int n), ticks = 0,
      config_debug = False\<rparr>"

definition example_metrics :: metrics where
  "example_metrics =
     \<lparr>counters = [(''web1_requests'', 20), (''nounderscore'', 1)],
      timers = [(''web1_latency'', [3, 1, 2])],
      gauges = [(''web1_load'', 7), (''db1_connections'', 8)],
      pctThreshold = [90]\<rparr>"

section \<open>Target decoding\<close>

lemma split_on_unfold:
  "split_on c s = takeWhile (\<lambda>x. x \<noteq> c) s #
     (case dropWhile (\<lambda>x. x \<noteq> c) s of [] \<Rightarrow> [] | d # r \<Rightarrow> split_on c r)"
  by (induction s) (auto split: list.splits)

lemma split_on_no_sep: "c \<notin> set s \<Longrightarrow> split_on c s = [s]"
  by (induction s) auto

lemma split_on_append_sep:
  "c \<notin> set a \<Longrightarrow> split_on c (a @ c # b) = a # split_on c b"
  by (induction a) auto

lemma drop_past_takeWhile:
  "drop (Suc (length (takeWhile P xs))) xs = tl (dropWhile P xs)"
  by (simp add: dropWhile_eq_drop drop_Suc tl_drop)

lemma replace_underscores_Nil [simp]: "(replace_underscores s = []) = (s = [])"
  by (simp add: replace_underscores_def)

text \<open>
  Claim C1, as the code has it. A metric name that is neither of the
  \<^verbatim>\<open>logstash.\<close>/\<^verbatim>\<open>kamon.\<close> form with three period-separated parts nor starts with
  \<^verbatim>\<open>statsd.\<close> is split at every underscore: the host is the text before the first
  underscore and the key is the text between the first and the second underscore (up to
  the end of the name when there is no second one). Decoding fails when the host or the
  key is empty, which includes a name without underscore.
\<close>

theorem targetDecode_default:
  assumes "\<not> ((startsWith stat ''logstash.'' \<or> startsWith stat ''kamon.'')
              \<and> length (split_on CHR ''.'' stat) = 3)"
    and "\<not> startsWith stat ''statsd.''"
  shows "targetDecode hostname stat =
     (let host = takeWhile (\<lambda>c. c \<noteq> CHR ''_'') stat;
          key = takeWhile (\<lambda>c. c \<noteq> CHR ''_'') (drop (Suc (length host)) stat)
      in if host = [] \<or> key = [] then Inl (''failed to decode stat: '' @ stat)
         else Inr \<lparr>target_host = host, target_key = key\<rparr>)"
proof -
  let ?P = "\<lambda>c. c \<noteq> CHR ''_''"
  have g1: "((startsWith stat ''logstash.'' \<or> startsWith stat ''kamon.'')
              \<and> length (split_on CHR ''.'' stat) = 3) = False"
    using assms(1) by simp
  have g2: "startsWith stat ''statsd.'' = False"
    using assms(2) by simp
  have dec: "targetDecode hostname stat =
      (case split_on CHR ''_'' stat of
         h # k # rest \<Rightarrow>
           (if h = [] \<or> k = [] then Inl (''failed to decode stat: '' @ stat)
            else Inr \<lparr>target_host = h, target_key = k\<rparr>)
       | _ \<Rightarrow> Inl (''failed to decode stat: '' @ stat))"
    unfolding targetDecode_def Let_def g1 g2
    by (simp split: list.splits)
  show ?thesis
  proof (cases "dropWhile ?P stat")
    case Nil
    have "split_on CHR ''_'' stat = [takeWhile ?P stat]"
      using split_on_unfold [of "CHR ''_''" stat] by (simp only: Nil list.case)
    then show ?thesis
      unfolding dec by (simp add: Let_def drop_past_takeWhile Nil del: dropWhile_eq_Nil_conv)
  next
    case (Cons d r)
    have "split_on CHR ''_'' stat = takeWhile ?P stat # split_on CHR ''_'' r"
      using split_on_unfold [of "CHR ''_''" stat] by (simp only: Cons list.case)
    also have "split_on CHR ''_'' r = takeWhile ?P r #
        (case dropWhile ?P r of [] \<Rightarrow> [] | d # r' \<Rightarrow> split_on CHR ''_'' r')"
      by (rule split_on_unfold)
    finally show ?thesis
      unfolding dec by (simp add: Let_def drop_past_takeWhile Cons)
  qed
qed

text \<open>The theorem at the name \<^verbatim>\<open>web1_cpu_load\<close>: the key is \<^verbatim>\<open>cpu\<close>.\<close>

theorem targetDecode_default_witness:
  "targetDecode ''localhost'' ''web1_cpu_load''
     = Inr \<lparr>target_host = ''web1'', target_key = ''cpu''\<rparr>"
  using targetDecode_default [of "''web1_cpu_load''" "''localhost''"]
  by (simp add: startsWith_def)

text \<open>
  The key is not the whole remainder after the first underscore: for
  \<^verbatim>\<open>web1_cpu_load\<close> the remainder is \<^verbatim>\<open>cpu_load\<close>, the decoded key is \<^verbatim>\<open>cpu\<close>.
\<close>

theorem targetDecode_default_counterexample:
  "targetDecode ''localhost'' ''web1_cpu_load''
     = Inr \<lparr>target_host = ''web1'', target_key = ''cpu''\<rparr>
   \<and> targetDecode ''localhost'' ''web1_cpu_load''
     \<noteq> Inr \<lparr>target_host = ''web1'', target_key = ''cpu_load''\<rparr>"
  by (simp add: targetDecode_def startsWith_def)

text \<open>
  Claim C4, as the code has it. For a name \<^verbatim>\<open>logstash.<host>.<key>\<close> or
  \<^verbatim>\<open>kamon.<host>.<key>\<close> with exactly three period-separated parts, decoding succeeds
  when host and key are both non-empty, and fails otherwise. On success every underscore
  of the host, and for \<^verbatim>\<open>logstash\<close> also of the key, is replaced by a period.
\<close>

theorem targetDecode_namespaced:
  assumes "CHR ''.'' \<notin> set h" and "CHR ''.'' \<notin> set k"
  shows "targetDecode hostname (''logstash.'' @ h @ ''.'' @ k) =
           (if h = [] \<or> k = []
            then Inl (''failed to decode stat: '' @ ''logstash.'' @ h @ ''.'' @ k)
            else Inr \<lparr>target_host = replace_underscores h,
                       target_key = replace_underscores k\<rparr>)
       \<and> targetDecode hostname (''kamon.'' @ h @ ''.'' @ k) =
           (if h = [] \<or> k = []
            then Inl (''failed to decode stat: '' @ ''kamon.'' @ h @ ''.'' @ k)
            else Inr \<lparr>target_host = replace_underscores h, target_key = k\<rparr>)"
proof -
  have hk: "split_on CHR ''.'' (h @ CHR ''.'' # k) = [h, k]"
    using assms by (simp add: split_on_append_sep split_on_no_sep)
  have l: "split_on CHR ''.'' (''logstash.'' @ h @ ''.'' @ k) = [''logstash'', h, k]"
    using split_on_append_sep [of "CHR ''.''" "''logstash''" "h @ CHR ''.'' # k"] hk by simp
  have m: "split_on CHR ''.'' (''kamon.'' @ h @ ''.'' @ k) = [''kamon'', h, k]"
    using split_on_append_sep [of "CHR ''.''" "''kamon''" "h @ CHR ''.'' # k"] hk by simp
  have "targetDecode hostname (''logstash.'' @ h @ ''.'' @ k) =
           (if h = [] \<or> k = []
            then Inl (''failed to decode stat: '' @ ''logstash.'' @ h @ ''.'' @ k)
            else Inr \<lparr>target_host = replace_underscores h,
                       target_key = replace_underscores k\<rparr>)"
    unfolding targetDecode_def l by (simp add: startsWith_def)
  moreover have "targetDecode hostname (''kamon.'' @ h @ ''.'' @ k) =
           (if h = [] \<or> k = []
            then Inl (''failed to decode stat: '' @ ''kamon.'' @ h @ ''.'' @ k)
            else Inr \<lparr>target_host = replace_underscores h, target_key = k\<rparr>)"
    unfolding targetDecode_def m by (simp add: startsWith_def)
  ultimately show ?thesis by simp
qed

text \<open>The theorem at host \<^verbatim>\<open>web_example_com\<close> and key \<^verbatim>\<open>cpu_load\<close>.\<close>

theorem targetDecode_namespaced_witness:
  "targetDecode ''localhost'' ''logstash.web_example_com.cpu_load'' =
     Inr \<lparr>target_host = ''web.example.com'', target_key = ''cpu.load''\<rparr>
   \<and> targetDecode ''localhost'' ''kamon.web_example_com.cpu_load'' =
     Inr \<lparr>target_host = ''web.example.com'', target_key = ''cpu_load''\<rparr>"
  using targetDecode_namespaced [of "''web_example_com''" "''cpu_load''" "''localhost''"]
  by (simp add: replace_underscores_def)

text \<open>
  A name of the \<^verbatim>\<open>logstash.\<close> form with exactly three parts on which decoding throws:
  the host part of \<^verbatim>\<open>logstash..key\<close> is empty.
\<close>

theorem targetDecode_namespaced_counterexample:
  "startsWith ''logstash..key'' ''logstash.''
   \<and> length (split_on CHR ''.'' ''logstash..key'') = 3
   \<and> targetDecode ''localhost'' ''logstash..key''
       = Inl ''failed to decode stat: logstash..key''"
  by (simp add: targetDecode_def startsWith_def)

section \<open>The timer generator\<close>

lemma timer_toggles_onD:
  assumes "timer_toggles_on opts"
  shows "readSetting opts ''enabled'' True" "readSetting opts ''send_lower'' True"
    "readSetting opts ''send_upper'' True" "readSetting opts ''send_count'' True"
    "readSetting opts ''send_mean_percentile'' True"
    "readSetting opts ''send_upper_percentile'' True"
  using assms by (simp_all add: timer_toggles_on_def)

lemma sort_sort_id: "sort (sort xs) = sort (xs :: rat list)"
  by (simp add: sorted_sort_id)

text \<open>
  Claim C9. The output of the timer generator does not depend on the order of the
  samples: on any sequence it is the output on the ascending sort of that sequence, and
  a second call on the array as the first call left it gives the same items again.
\<close>

theorem itemsForTimer_order_irrelevant:
  "fst (itemsForTimer publishOpts percentiles host key S)
     = fst (itemsForTimer publishOpts percentiles host key (sort S))
   \<and> fst (itemsForTimer publishOpts percentiles host key
            (snd (itemsForTimer publishOpts percentiles host key S)))
     = fst (itemsForTimer publishOpts percentiles host key S)"
  by (simp add: itemsForTimer_def Let_def sort_sort_id)

text \<open>The theorem at the samples \<open>3, 1, 2\<close> with default options.\<close>

theorem itemsForTimer_order_irrelevant_witness:
  "fst (itemsForTimer None [90] ''h'' ''k'' [3, 1, 2])
     = fst (itemsForTimer None [90] ''h'' ''k'' (sort [3, 1, 2]))
   \<and> fst (itemsForTimer None [90] ''h'' ''k''
            (snd (itemsForTimer None [90] ''h'' ''k'' [3, 1, 2])))
     = fst (itemsForTimer None [90] ''h'' ''k'' [3, 1, 2])"
  using itemsForTimer_order_irrelevant [of None "[90]" "''h''" "''k''" "[3, 1, 2]"]
  by simp

text \<open>
  Claim C10. When the category is enabled, the array the caller passed is, after the
  call, the ascending sort of what it was before: sorted, with the same elements.
\<close>

theorem itemsForTimer_sorts_in_place:
  assumes "readSetting publishOpts ''enabled'' True"
  shows "snd (itemsForTimer publishOpts percentiles host key data) = sort data
     \<and> sorted (snd (itemsForTimer publishOpts percentiles host key data))
     \<and> mset (snd (itemsForTimer publishOpts percentiles host key data)) = mset data"
  using assms by (simp add: itemsForTimer_def Let_def)

text \<open>The theorem at the samples \<open>3, 1, 2\<close>: the caller's array becomes \<open>1, 2, 3\<close>.\<close>

theorem itemsForTimer_sorts_in_place_witness:
  "readSetting None ''enabled'' True
   \<and> snd (itemsForTimer None [90] ''h'' ''k'' [3, 1, 2]) = [1, 2, 3]"
  using itemsForTimer_sorts_in_place [of None "[90]" "''h''" "''k''" "[3, 1, 2]"]
  by (simp add: readSetting_def)

lemma fold_percentile_step_empty:
  "fold (percentile_step True True host key []) percentiles (Undefined, Undefined, items)
     = (Undefined, Undefined,
        items @ concat (map (\<lambda>p.
          [\<lparr>item_host = host,
            item_key = key @ ''[mean]['' @ replace_first_period (number_toString p) @ '']'',
            item_value = Num 0\<rparr>,
           \<lparr>item_host = host,
            item_key = key @ ''[upper]['' @ replace_first_period (number_toString p) @ '']'',
            item_value = Num 0\<rparr>]) percentiles))"
  by (induction percentiles arbitrary: items) (simp_all add: percentile_step_def Let_def)

text \<open>
  Claim C8. On an empty sample sequence with all toggles enabled the timer generator
  emits \<^verbatim>\<open>key[lower]\<close>, \<^verbatim>\<open>key[upper]\<close> and \<^verbatim>\<open>key[count]\<close> with value 0, then for
  each percentile \<^verbatim>\<open>key[mean][p]\<close> and \<^verbatim>\<open>key[upper][p]\<close> with value 0, and nothing
  else.
\<close>

theorem itemsForTimer_empty:
  assumes "timer_toggles_on publishOpts"
  shows "fst (itemsForTimer publishOpts percentiles host key []) =
     [\<lparr>item_host = host, item_key = key @ ''[lower]'', item_value = Num 0\<rparr>,
      \<lparr>item_host = host, item_key = key @ ''[upper]'', item_value = Num 0\<rparr>,
      \<lparr>item_host = host, item_key = key @ ''[count]'', item_value = Num 0\<rparr>]
     @ concat (map (\<lambda>p.
          [\<lparr>item_host = host,
            item_key = key @ ''[mean]['' @ replace_first_period (number_toString p) @ '']'',
            item_value = Num 0\<rparr>,
           \<lparr>item_host = host,
            item_key = key @ ''[upper]['' @ replace_first_period (number_toString p) @ '']'',
            item_value = Num 0\<rparr>]) percentiles)"
  using timer_toggles_onD [OF assms]
  by (simp add: itemsForTimer_def Let_def js_index_def fold_percentile_step_empty)

text \<open>The theorem with default options and the percentiles \<open>90\<close> and \<open>99.9\<close>.\<close>

theorem itemsForTimer_empty_witness:
  "timer_toggles_on None
   \<and> fst (itemsForTimer None [90, 999 / 10] ''web1'' ''latency'' []) =
     [\<lparr>item_host = ''web1'', item_key = ''latency[lower]'', item_value = Num 0\<rparr>,
      \<lparr>item_host = ''web1'', item_key = ''latency[upper]'', item_value = Num 0\<rparr>,
      \<lparr>item_host = ''web1'', item_key = ''latency[count]'', item_value = Num 0\<rparr>,
      \<lparr>item_host = ''web1'', item_key = ''latency[mean][90]'', item_value = Num 0\<rparr>,
      \<lparr>item_host = ''web1'', item_key = ''latency[upper][90]'', item_value = Num 0\<rparr>,
      \<lparr>item_host = ''web1'', item_key = ''latency[mean][99_9]'', item_value = Num 0\<rparr>,
      \<lparr>item_host = ''web1'', item_key = ''latency[upper][99_9]'', item_value = Num 0\<rparr>]"
proof -
  have t: "timer_toggles_on None"
    by (simp add: timer_toggles_on_def readSetting_def)
  have n1: "number_toString 90 = ''90''" by code_simp
  have n2: "number_toString (999 / 10) = ''99.9''" by code_simp
  show ?thesis
    using itemsForTimer_empty [OF t, of "[90, 999 / 10]" "''web1''" "''latency''"] t
    by (simp add: n1 n2)
qed

lemma sort_1_10: "sort [1, 2, 3, 4, 5, 6, 7, 8, 9, 10 :: rat] = [1, 2, 3, 4, 5, 6, 7, 8, 9, 10]"
  by (simp add: sorted_sort_id)

text \<open>
  Claim C5. For the samples \<open>1, ..., 10\<close> and the percentile \<open>90\<close> with all toggles
  enabled: \<open>thresholdIndex\<close> is 1, \<open>numInThreshold\<close> is 9, \<^verbatim>\<open>key[mean][90]\<close> is 5 and
  \<^verbatim>\<open>key[upper][90]\<close> is 9.
\<close>

theorem itemsForTimer_percentile_90:
  assumes "timer_toggles_on publishOpts"
  shows "thresholdIndex 90 10 = 1 \<and> numInThreshold 90 10 = 9
     \<and> fst (itemsForTimer publishOpts [90] host key [1, 2, 3, 4, 5, 6, 7, 8, 9, 10]) =
     [\<lparr>item_host = host, item_key = key @ ''[lower]'', item_value = Num 1\<rparr>,
      \<lparr>item_host = host, item_key = key @ ''[upper]'', item_value = Num 10\<rparr>,
      \<lparr>item_host = host, item_key = key @ ''[count]'', item_value = Num 10\<rparr>,
      \<lparr>item_host = host, item_key = key @ ''[mean][90]'', item_value = Num 5\<rparr>,
      \<lparr>item_host = host, item_key = key @ ''[upper][90]'', item_value = Num 9\<rparr>]"
proof -
  let ?S = "[1, 2, 3, 4, 5, 6, 7, 8, 9, 10 :: rat]"
  have "\<lfloor>3 / 2 :: rat\<rfloor> = 1"
    by (simp add: floor_eq_iff)
  then have ti: "thresholdIndex 90 10 = 1"
    by (simp add: thresholdIndex_def js_round_def)
  have nt: "numInThreshold 90 10 = 9"
    by (simp add: numInThreshold_def ti)
  have len: "length ?S = 10" by simp
  have n1: "number_toString 90 = ''90''" by code_simp
  have up: "[0..<9] = [0, 1, 2, 3, 4, 5, 6, 7, 8]" by (simp add: upt_rec)
  have sl: "sum_loop [1, 2, 3, 4, 5, 6, 7, 8, 9] 9 = Num 45"
    by (simp add: sum_loop_def up js_index_def)
  have tk: "js_slice0 ?S 9 = [1, 2, 3, 4, 5, 6, 7, 8, 9]"
    by (simp add: js_slice0_def)
  have ix: "js_index [1, 2, 3, 4, 5, 6, 7, 8, 9] (9 - 1) = Num 9"
    by (simp add: js_index_def)
  have ps: "percentile_step True True host key ?S 90 (m0, x0, items) =
      (Num 5, Num 9, items @
        [\<lparr>item_host = host, item_key = key @ ''[mean][90]'', item_value = Num 5\<rparr>,
         \<lparr>item_host = host, item_key = key @ ''[upper][90]'', item_value = Num 9\<rparr>])"
    for m0 x0 items
    unfolding percentile_step_def Let_def len nt tk sl ix n1
    by simp
  have mn: "js_index ?S 0 = Num 1" by (simp add: js_index_def)
  have mx: "js_index ?S (int 10 - 1) = Num 10" by (simp add: js_index_def)
  have "fst (itemsForTimer publishOpts [90] host key ?S) =
     [\<lparr>item_host = host, item_key = key @ ''[lower]'', item_value = Num 1\<rparr>,
      \<lparr>item_host = host, item_key = key @ ''[upper]'', item_value = Num 10\<rparr>,
      \<lparr>item_host = host, item_key = key @ ''[count]'', item_value = Num 10\<rparr>,
      \<lparr>item_host = host, item_key = key @ ''[mean][90]'', item_value = Num 5\<rparr>,
      \<lparr>item_host = host, item_key = key @ ''[upper][90]'', item_value = Num 9\<rparr>]"
    using timer_toggles_onD [OF assms]
    unfolding itemsForTimer_def Let_def sort_1_10 len mn mx
    by (simp add: ps)
  with ti nt show ?thesis by simp
qed

text \<open>The theorem with the category explicitly enabled.\<close>

theorem itemsForTimer_percentile_90_witness:
  "timer_toggles_on (Some [''enabled'' \<mapsto> True])
   \<and> fst (itemsForTimer (Some [''enabled'' \<mapsto> True]) [90] ''web1'' ''latency''
           [1, 2, 3, 4, 5, 6, 7, 8, 9, 10]) =
     [\<lparr>item_host = ''web1'', item_key = ''latency[lower]'', item_value = Num 1\<rparr>,
      \<lparr>item_host = ''web1'', item_key = ''latency[upper]'', item_value = Num 10\<rparr>,
      \<lparr>item_host = ''web1'', item_key = ''latency[count]'', item_value = Num 10\<rparr>,
      \<lparr>item_host = ''web1'', item_key = ''latency[mean][90]'', item_value = Num 5\<rparr>,
      \<lparr>item_host = ''web1'', item_key = ''latency[upper][90]'', item_value = Num 9\<rparr>]"
proof -
  have t: "timer_toggles_on (Some [''enabled'' \<mapsto> True])"
    by (simp add: timer_toggles_on_def readSetting_def)
  show ?thesis
    using itemsForTimer_percentile_90 [OF t, of "''web1''" "''latency''"] t
    by simp
qed

section \<open>The flush\<close>

lemma log_frame [simp]:
  "stats (log lvl msg w) = stats w" "clock (log lvl msg w) = clock w"
  "ticks (log lvl msg w) = ticks w" "config_debug (log lvl msg w) = config_debug w"
  by (simp_all add: log_def logger_def)

lemma push_item_frame [simp]:
  "fst (push_item it st) = fst st @ [it]"
  "stats (snd (push_item it st)) = stats (snd st)"
  "clock (snd (push_item it st)) = clock (snd st)"
  "ticks (snd (push_item it st)) = ticks (snd st)"
  by (simp_all add: push_item_def split: prod.splits)

lemma fold_push_item_frame [simp]:
  "fst (fold push_item its st) = fst st @ its"
  "stats (snd (fold push_item its st)) = stats (snd st)"
  "clock (snd (fold push_item its st)) = clock (snd st)"
  "ticks (snd (fold push_item its st)) = ticks (snd st)"
  by (induction its arbitrary: st) simp_all

lemma handle_catch_frame [simp]:
  "fst (handle_catch err st) = fst st"
  "clock (snd (handle_catch err st)) = clock (snd st)"
  "ticks (snd (handle_catch err st)) = Suc (ticks (snd st))"
  "last_exception (stats (snd (handle_catch err st))) = clock (snd st) (ticks (snd st))"
  by (simp_all add: handle_catch_def tsNow_def split: prod.splits)

lemma handle_items: "fst (handle tb proc e st) = fst st @ stat_items tb proc e"
  by (simp add: handle_def stat_items_def split: prod.splits sum.splits)

lemma handle_clock: "clock (snd (handle tb proc e st)) = clock (snd st)"
  by (simp add: handle_def split: prod.splits sum.splits)

lemma handle_ticks:
  "ticks (snd (handle tb proc e st))
     = ticks (snd st) + (if entry_fails tb proc e then 1 else 0)"
  by (auto simp add: handle_def entry_fails_def split: prod.splits sum.splits)

lemma handle_last_exception:
  "last_exception (stats (snd (handle tb proc e st))) =
     (if entry_fails tb proc e then clock (snd st) (ticks (snd st))
      else last_exception (stats (snd st)))"
  by (auto simp add: handle_def entry_fails_def split: prod.splits sum.splits)

lemma fold_handle_items:
  "fst (fold (handle tb proc) es st) = fst st @ concat (map (stat_items tb proc) es)"
  by (induction es arbitrary: st) (simp_all add: handle_items)

lemma fold_handle_clock: "clock (snd (fold (handle tb proc) es st)) = clock (snd st)"
  by (induction es arbitrary: st) (simp_all add: handle_clock)

lemma fold_handle_ticks:
  "ticks (snd (fold (handle tb proc) es st))
     = ticks (snd st) + length (filter (entry_fails tb proc) es)"
  by (induction es arbitrary: st) (simp_all add: handle_ticks)

lemma fold_handle_last_exception:
  "last_exception (stats (snd (fold (handle tb proc) es st))) =
     (if filter (entry_fails tb proc) es = [] then last_exception (stats (snd st))
      else clock (snd st) (ticks (snd st) + length (filter (entry_fails tb proc) es) - 1))"
proof (induction es arbitrary: st)
  case Nil
  show ?case by simp
next
  case (Cons e es)
  show ?case
    by (simp add: Cons.IH handle_ticks handle_clock handle_last_exception)
qed

lemma flush_body_callback:
  "fst (snd (flush_body tb cp tp gp ts m w))
     = flush_callback ts (clock w (ticks w)) (length (fst (flush_body tb cp tp gp ts m w)))"
  by (simp add: flush_body_def Let_def tsNow_def split_def)

lemma flush_body_items:
  "fst (flush_body tb cp tp gp ts m w) =
     concat (map (stat_items tb cp) (counters m))
     @ concat (map (stat_items tb tp) (timers m))
     @ concat (map (stat_items tb gp) (gauges m))"
  by (simp add: flush_body_def Let_def tsNow_def split_def fold_handle_items)

lemma flush_body_ticks:
  "ticks (snd (snd (flush_body tb cp tp gp ts m w))) = Suc (ticks w) + failures tb cp tp gp m"
  by (simp add: flush_body_def Let_def tsNow_def split_def fold_handle_ticks failures_def)

lemma flush_body_last_exception:
  assumes "0 < failures tb cp tp gp m"
  shows "last_exception (stats (snd (snd (flush_body tb cp tp gp ts m w))))
     = clock w (ticks w + failures tb cp tp gp m)"
proof -
  let ?f1 = "filter (entry_fails tb cp) (counters m)"
  let ?f2 = "filter (entry_fails tb tp) (timers m)"
  let ?f3 = "filter (entry_fails tb gp) (gauges m)"
  have n: "failures tb cp tp gp m = length ?f1 + length ?f2 + length ?f3"
    by (simp add: failures_def)
  have le: "last_exception (stats (snd (snd (flush_body tb cp tp gp ts m w)))) =
      (if ?f3 = []
       then (if ?f2 = []
             then (if ?f1 = [] then last_exception (stats w)
                   else clock w (Suc (ticks w) + length ?f1 - 1))
             else clock w (Suc (ticks w) + length ?f1 + length ?f2 - 1))
       else clock w (Suc (ticks w) + length ?f1 + length ?f2 + length ?f3 - 1))"
    by (simp add: flush_body_def Let_def tsNow_def split_def fold_handle_last_exception
        fold_handle_ticks fold_handle_clock)
  show ?thesis
  proof (cases "?f3 = []")
    case f3: True
    show ?thesis
    proof (cases "?f2 = []")
      case f2: True
      with f3 assms n have "?f1 \<noteq> []" by auto
      with f2 f3 show ?thesis by (simp add: le n add.assoc)
    next
      case False
      with f3 show ?thesis by (simp add: le n add.assoc)
    qed
  next
    case False
    then show ?thesis by (simp add: le n add.assoc)
  qed
qed

lemma flush_eq_body:
  "flush tb pItems fi ts m w =
     flush_body tb
       (\<lambda>host key v. Inr (itemsForCounter (pItems ''counters'') fi host key v))
       (\<lambda>host key data.
          Inr (fst (itemsForTimer (pItems ''timers'') (pctThreshold m) host key data)))
       (\<lambda>host key v. Inr (itemsForGauge (pItems ''guages'') host key v))
       ts m w"
  by (simp add: flush_def)

lemma flush_callback_of:
  "fst (snd (flush tb pItems fi ts m w))
     = flush_callback ts (clock w (ticks w)) (length (fst (flush tb pItems fi ts m w)))"
  by (simp add: flush_eq_body flush_body_callback)

lemma flush_items:
  "fst (flush tb pItems fi ts m w) =
     concat (map (stat_items tb
         (\<lambda>host key v. Inr (itemsForCounter (pItems ''counters'') fi host key v)))
         (counters m))
     @ concat (map (stat_items tb
         (\<lambda>host key data.
            Inr (fst (itemsForTimer (pItems ''timers'') (pctThreshold m) host key data))))
         (timers m))
     @ concat (map (stat_items tb
         (\<lambda>host key v. Inr (itemsForGauge (pItems ''guages'') host key v)))
         (gauges m))"
  by (simp add: flush_eq_body flush_body_items)

lemma flush_callback_ok:
  assumes "errors resp = None \<or> errors resp = Some []"
  shows "last_flush (stats (flush_callback ts fs n resp w)) = ts"
    and "flush_time (stats (flush_callback ts fs n resp w)) = fs - ts"
    and "last_exception (stats (flush_callback ts fs n resp w)) = last_exception (stats w)"
  using assms
  by (auto simp add: flush_callback_def Let_def split: option.splits list.splits)

lemma flush_callback_failed:
  assumes "errors resp = Some (e # es)"
  shows "last_exception (stats (flush_callback ts fs n resp w)) = clock w (ticks w)"
    and "last_flush (stats (flush_callback ts fs n resp w)) = last_flush (stats w)"
    and "flush_time (stats (flush_callback ts fs n resp w)) = flush_time (stats w)"
    and "logged (flush_callback ts fs n resp w) =
       logged w @ (''statsd-zabbix-backend: '' @ e, ERROR)
         # (case statusMessage resp of
              Some (c # cs) \<Rightarrow> [(''statsd-zabbix-backend: '' @ c # cs, INFO)]
            | _ \<Rightarrow> [])"
  using assms
  by (auto simp add: flush_callback_def Let_def tsNow_def log_def logger_def
      split: option.splits list.splits)


lemma flush_triple:
  "flush tb pItems fi ts m w =
     (fst (flush tb pItems fi ts m w), fst (snd (flush tb pItems fi ts m w)),
      snd (snd (flush tb pItems fi ts m w)))"
  by simp

lemma flush_body_triple:
  "flush_body tb cp tp gp ts m w =
     (fst (flush_body tb cp tp gp ts m w), fst (snd (flush_body tb cp tp gp ts m w)),
      snd (snd (flush_body tb cp tp gp ts m w)))"
  by simp

lemma flush_gauges_entry_unread:
  "flush tb (pItems(''gauges'' := x)) fi ts m w = flush tb pItems fi ts m w"
  by (simp add: flush_def)

text \<open>
  Claim C2, on the code. \<^verbatim>\<open>flush\<close> reads the gauge options from the property
  \<^verbatim>\<open>guages\<close> of \<^verbatim>\<open>publishItems\<close>, not from \<^verbatim>\<open>gauges\<close>. With
  \<^verbatim>\<open>{gauges: {enabled: false}}\<close> the gauge generator is called with
  \<^verbatim>\<open>undefined\<close> options and the gauge is published, although the generator called
  with the \<^verbatim>\<open>gauges\<close> entry would return nothing.
\<close>

theorem flush_gauges_disabled_still_published:
  "fst (flush (targetDecode ''localhost'') [''gauges'' \<mapsto> [''enabled'' \<mapsto> False]]
          10000 1699999990
          \<lparr>counters = [], timers = [], gauges = [(''web1_load'', 7)], pctThreshold = [90]\<rparr>
          example_world)
     = [\<lparr>item_host = ''web1'', item_key = ''load'', item_value = Num 7\<rparr>]
   \<and> itemsForGauge ([''gauges'' \<mapsto> [''enabled'' \<mapsto> False]] ''gauges'') ''web1'' ''load'' 7 = []
   \<and> [''gauges'' \<mapsto> [''enabled'' \<mapsto> False]] ''guages'' = None"
proof -
  have d: "targetDecode ''localhost'' ''web1_load''
      = Inr \<lparr>target_host = ''web1'', target_key = ''load''\<rparr>"
    by (simp add: targetDecode_def startsWith_def)
  show ?thesis
    by (simp add: flush_items stat_items_def d itemsForGauge_def readSetting_def)
qed

text \<open>In particular the flush of that snapshot is not empty.\<close>

theorem flush_gauges_disabled_still_published_witness:
  "fst (flush (targetDecode ''localhost'') [''gauges'' \<mapsto> [''enabled'' \<mapsto> False]]
          10000 1699999990
          \<lparr>counters = [], timers = [], gauges = [(''web1_load'', 7)], pctThreshold = [90]\<rparr>
          example_world) \<noteq> []"
  using flush_gauges_disabled_still_published by simp

text \<open>
  Claim C3. When the response passed to the completion callback has no \<^verbatim>\<open>errors\<close>
  field or an empty one, the callback sets \<^verbatim>\<open>last_flush\<close> to the timestamp given to
  \<^verbatim>\<open>flush\<close> and \<^verbatim>\<open>flush_time\<close> to the clock reading taken at the start of
  \<^verbatim>\<open>flush\<close> minus that timestamp, in whatever state \<open>w2\<close> the callback runs.
\<close>

theorem flush_success_updates_stats:
  assumes "flush tb pItems fi ts m w = (allItems, callback, w')"
    and "errors resp = None \<or> errors resp = Some []"
  shows "last_flush (stats (callback resp w2)) = ts
     \<and> flush_time (stats (callback resp w2)) = clock w (ticks w) - ts"
proof -
  have "callback = flush_callback ts (clock w (ticks w)) (length allItems)"
    using flush_callback_of [of tb pItems fi ts m w] assms(1) by simp
  then show ?thesis
    using flush_callback_ok [OF assms(2)] by simp
qed

text \<open>
  The theorem on the example snapshot with an empty \<^verbatim>\<open>errors\<close> array: the flush
  starts at 1700000000 for the timestamp 1699999990, so \<^verbatim>\<open>flush_time\<close> is 10.
\<close>

theorem flush_success_updates_stats_witness:
  "(errors \<lparr>errors = Some [], statusMessage = None, total = None\<rparr> = None
      \<or> errors \<lparr>errors = Some [], statusMessage = None, total = None\<rparr> = Some [])
   \<and> last_flush (stats (fst (snd (flush (targetDecode ''localhost'') Map.empty 10000
          1699999990 example_metrics example_world))
        \<lparr>errors = Some [], statusMessage = None, total = None\<rparr> example_world))
      = 1699999990
   \<and> flush_time (stats (fst (snd (flush (targetDecode ''localhost'') Map.empty 10000
          1699999990 example_metrics example_world))
        \<lparr>errors = Some [], statusMessage = None, total = None\<rparr> example_world))
      = 10"
proof -
  let ?r = "\<lparr>errors = Some [], statusMessage = None, total = None\<rparr>"
  have h: "errors ?r = None \<or> errors ?r = Some []" by simp
  have c: "clock example_world (ticks example_world) - 1699999990 = 10"
    by (simp add: example_world_def)
  show ?thesis
    using flush_success_updates_stats [OF flush_triple h, of "targetDecode ''localhost''"
        Map.empty 10000 1699999990 example_metrics example_world example_world] c
    by simp
qed

text \<open>
  Claim C7. When the response has a non-empty \<^verbatim>\<open>errors\<close> array, the callback
  records the current time in \<^verbatim>\<open>last_exception\<close>, logs the first error at level
  ERROR and none of the others, and leaves \<^verbatim>\<open>last_flush\<close> (and \<^verbatim>\<open>flush_time\<close>)
  as they were. The only other log entry is the status message, when there is one.
\<close>

theorem flush_transport_error:
  assumes "flush tb pItems fi ts m w = (allItems, callback, w')"
    and "errors resp = Some (e # es)"
  shows "last_exception (stats (callback resp w2)) = clock w2 (ticks w2)
     \<and> last_flush (stats (callback resp w2)) = last_flush (stats w2)
     \<and> flush_time (stats (callback resp w2)) = flush_time (stats w2)
     \<and> logged (callback resp w2) =
         logged w2 @ (''statsd-zabbix-backend: '' @ e, ERROR)
           # (case statusMessage resp of
                Some (c # cs) \<Rightarrow> [(''statsd-zabbix-backend: '' @ c # cs, INFO)]
              | _ \<Rightarrow> [])"
proof -
  have "callback = flush_callback ts (clock w (ticks w)) (length allItems)"
    using flush_callback_of [of tb pItems fi ts m w] assms(1) by simp
  then show ?thesis
    using flush_callback_failed [OF assms(2)] by simp
qed

text \<open>The theorem on a response with two errors: only the first is logged.\<close>

theorem flush_transport_error_witness:
  "errors \<lparr>errors = Some [''connection refused'', ''timed out''], statusMessage = None,
            total = None\<rparr> = Some [''connection refused'', ''timed out'']
   \<and> last_exception (stats (fst (snd (flush (targetDecode ''localhost'') Map.empty 10000
          1699999990 example_metrics example_world))
        \<lparr>errors = Some [''connection refused'', ''timed out''], statusMessage = None,
          total = None\<rparr> example_world))
      = 1700000000
   \<and> last_flush (stats (fst (snd (flush (targetDecode ''localhost'') Map.empty 10000
          1699999990 example_metrics example_world))
        \<lparr>errors = Some [''connection refused'', ''timed out''], statusMessage = None,
          total = None\<rparr> example_world))
      = 0
   \<and> logged (fst (snd (flush (targetDecode ''localhost'') Map.empty 10000
          1699999990 example_metrics example_world))
        \<lparr>errors = Some [''connection refused'', ''timed out''], statusMessage = None,
          total = None\<rparr> example_world)
      = [(''statsd-zabbix-backend: connection refused'', ERROR)]"
proof -
  let ?r = "\<lparr>errors = Some [''connection refused'', ''timed out''], statusMessage = None,
              total = None\<rparr>"
  have h: "errors ?r = Some (''connection refused'' # [''timed out''])" by simp
  have c: "clock example_world (ticks example_world) = 1700000000"
    "last_flush (stats example_world) = 0" "logged example_world = []"
    by (simp_all add: example_world_def init_stats_def)
  show ?thesis
    using flush_transport_error [OF flush_triple h, of "targetDecode ''localhost''"
        Map.empty 10000 1699999990 example_metrics example_world example_world] c
    by simp
qed

text \<open>
  Claim C6. A failure for one metric, of the resolution of its name or of the generation
  of its items, does not abort the flush: whatever the processors, the items handed to
  the publisher are the items of all entries that did not fail, in order. When at least
  one entry fails, \<^verbatim>\<open>last_exception\<close> is the clock reading taken when the last failure
  was caught; with exactly one failure that is the second reading of the flush, the
  first being \<^verbatim>\<open>flushStart\<close>. After a response without errors \<^verbatim>\<open>last_flush\<close> is
  the timestamp of the flush and \<^verbatim>\<open>last_exception\<close> is kept.
\<close>

theorem flush_isolates_failure:
  assumes "flush_body tb counterProcessor timerProcessor guageProcessor ts m w
             = (allItems, callback, w')"
    and "0 < failures tb counterProcessor timerProcessor guageProcessor m"
    and "errors resp = None \<or> errors resp = Some []"
  shows "allItems =
       concat (map (stat_items tb counterProcessor) (counters m))
       @ concat (map (stat_items tb timerProcessor) (timers m))
       @ concat (map (stat_items tb guageProcessor) (gauges m))
     \<and> last_exception (stats w')
         = clock w (ticks w + failures tb counterProcessor timerProcessor guageProcessor m)
     \<and> last_exception (stats (callback resp w')) = last_exception (stats w')
     \<and> last_flush (stats (callback resp w')) = ts"
proof -
  have cb: "callback = flush_callback ts (clock w (ticks w)) (length allItems)"
    using flush_body_callback [of tb counterProcessor timerProcessor guageProcessor ts m w]
      assms(1) by simp
  have it: "allItems = fst (flush_body tb counterProcessor timerProcessor guageProcessor ts m w)"
    using assms(1) by simp
  have le: "last_exception (stats w')
      = clock w (ticks w + failures tb counterProcessor timerProcessor guageProcessor m)"
    using flush_body_last_exception [OF assms(2), of ts w] assms(1) by simp
  show ?thesis
    using flush_callback_ok [OF assms(3)] le
    by (simp add: cb it flush_body_items)
qed

lemma example_decodes:
  "targetDecode ''localhost'' ''web1_requests''
     = Inr \<lparr>target_host = ''web1'', target_key = ''requests''\<rparr>"
  "targetDecode ''localhost'' ''nounderscore'' = Inl ''failed to decode stat: nounderscore''"
  "targetDecode ''localhost'' ''web1_latency''
     = Inr \<lparr>target_host = ''web1'', target_key = ''latency''\<rparr>"
  "targetDecode ''localhost'' ''web1_load''
     = Inr \<lparr>target_host = ''web1'', target_key = ''load''\<rparr>"
  "targetDecode ''localhost'' ''db1_connections''
     = Inr \<lparr>target_host = ''db1'', target_key = ''connections''\<rparr>"
  by (simp_all add: targetDecode_def startsWith_def)

lemma example_timer:
  "fst (itemsForTimer None [90] ''web1'' ''latency'' [3, 1, 2]) =
     [\<lparr>item_host = ''web1'', item_key = ''latency[lower]'', item_value = Num 1\<rparr>,
      \<lparr>item_host = ''web1'', item_key = ''latency[upper]'', item_value = Num 3\<rparr>,
      \<lparr>item_host = ''web1'', item_key = ''latency[count]'', item_value = Num 3\<rparr>,
      \<lparr>item_host = ''web1'', item_key = ''latency[mean][90]'', item_value = Num 2\<rparr>,
      \<lparr>item_host = ''web1'', item_key = ''latency[upper][90]'', item_value = Num 3\<rparr>]"
  by code_simp

text \<open>
  The theorem twice on the example snapshot of five names. First with the generators as
  \<^const>\<open>flush\<close> binds them: \<^verbatim>\<open>nounderscore\<close> fails resolution, the nine items of the
  other four are published, \<^verbatim>\<open>last_exception\<close> is the second clock reading and
  \<^verbatim>\<open>last_flush\<close> the timestamp. Then with a timer processor that throws and a target
  builder that resolves every name: the timer contributes nothing, the four items of the
  counters and the two of the gauges are published.
\<close>

theorem flush_isolates_failure_witness:
  "failures (targetDecode ''localhost'')
       (\<lambda>host key v. Inr (itemsForCounter None 10000 host key v))
       (\<lambda>host key data. Inr (fst (itemsForTimer None [90] host key data)))
       (\<lambda>host key v. Inr (itemsForGauge None host key v))
       example_metrics = 1
   \<and> fst (flush (targetDecode ''localhost'') Map.empty 10000 1699999990 example_metrics
           example_world) =
     [\<lparr>item_host = ''web1'', item_key = ''requests[total]'', item_value = Num 20\<rparr>,
      \<lparr>item_host = ''web1'', item_key = ''requests[avg]'', item_value = Num 2\<rparr>,
      \<lparr>item_host = ''web1'', item_key = ''latency[lower]'', item_value = Num 1\<rparr>,
      \<lparr>item_host = ''web1'', item_key = ''latency[upper]'', item_value = Num 3\<rparr>,
      \<lparr>item_host = ''web1'', item_key = ''latency[count]'', item_value = Num 3\<rparr>,
      \<lparr>item_host = ''web1'', item_key = ''latency[mean][90]'', item_value = Num 2\<rparr>,
      \<lparr>item_host = ''web1'', item_key = ''latency[upper][90]'', item_value = Num 3\<rparr>,
      \<lparr>item_host = ''web1'', item_key = ''load'', item_value = Num 7\<rparr>,
      \<lparr>item_host = ''db1'', item_key = ''connections'', item_value = Num 8\<rparr>]
   \<and> last_exception (stats (snd (snd (flush (targetDecode ''localhost'') Map.empty 10000
          1699999990 example_metrics example_world)))) = 1700000001
   \<and> last_flush (stats (fst (snd (flush (targetDecode ''localhost'') Map.empty 10000
          1699999990 example_metrics example_world))
        \<lparr>errors = None, statusMessage = None, total = None\<rparr>
        (snd (snd (flush (targetDecode ''localhost'') Map.empty 10000
          1699999990 example_metrics example_world))))) = 1699999990
   \<and> failures (targetStatic ''web1'')
       (\<lambda>host key v. Inr (itemsForCounter None 10000 host key v))
       (\<lambda>host key data. Inl ''TypeError: data.sort is not a function'')
       (\<lambda>host key v. Inr (itemsForGauge None host key v))
       example_metrics = 1
   \<and> fst (flush_body (targetStatic ''web1'')
       (\<lambda>host key v. Inr (itemsForCounter None 10000 host key v))
       (\<lambda>host key data. Inl ''TypeError: data.sort is not a function'')
       (\<lambda>host key v. Inr (itemsForGauge None host key v))
       1699999990 example_metrics example_world) =
     [\<lparr>item_host = ''web1'', item_key = ''web1_requests[total]'', item_value = Num 20\<rparr>,
      \<lparr>item_host = ''web1'', item_key = ''web1_requests[avg]'', item_value = Num 2\<rparr>,
      \<lparr>item_host = ''web1'', item_key = ''nounderscore[total]'', item_value = Num 1\<rparr>,
      \<lparr>item_host = ''web1'', item_key = ''nounderscore[avg]'', item_value = Num (1 / 10)\<rparr>,
      \<lparr>item_host = ''web1'', item_key = ''web1_load'', item_value = Num 7\<rparr>,
      \<lparr>item_host = ''web1'', item_key = ''db1_connections'', item_value = Num 8\<rparr>]
   \<and> last_exception (stats (snd (snd (flush_body (targetStatic ''web1'')
       (\<lambda>host key v. Inr (itemsForCounter None 10000 host key v))
       (\<lambda>host key data. Inl ''TypeError: data.sort is not a function'')
       (\<lambda>host key v. Inr (itemsForGauge None host key v))
       1699999990 example_metrics example_world)))) = 1700000001"
proof -
  let ?r = "\<lparr>errors = None, statusMessage = None, total = None\<rparr>"
  let ?cp = "\<lambda>host key v. Inr (itemsForCounter None 10000 host key v)"
  let ?tp = "\<lambda>host key data. Inr (fst (itemsForTimer None [90] host key data))"
  let ?bad = "\<lambda>(host :: string) (key :: string) (data :: rat list).
      (Inl ''TypeError: data.sort is not a function'' :: string + item list)"
  let ?gp = "\<lambda>host key v. Inr (itemsForGauge None host key v)"
  have h: "errors ?r = None \<or> errors ?r = Some []" by simp
  have m: "counters example_metrics = [(''web1_requests'', 20), (''nounderscore'', 1)]"
    "timers example_metrics = [(''web1_latency'', [3, 1, 2])]"
    "gauges example_metrics = [(''web1_load'', 7), (''db1_connections'', 8)]"
    "pctThreshold example_metrics = [90]"
    by (simp_all add: example_metrics_def)
  have f: "failures (targetDecode ''localhost'') ?cp ?tp ?gp example_metrics = 1"
    by (simp add: failures_def entry_fails_def m example_decodes)
  have g: "failures (targetStatic ''web1'') ?cp ?bad ?gp example_metrics = 1"
    by (simp add: failures_def entry_fails_def m targetStatic_def)
  have c: "clock example_world (ticks example_world + 1) = 1700000001"
    by (simp add: example_world_def)
  have e: "flush (targetDecode ''localhost'') Map.empty 10000 1699999990 example_metrics
        example_world
      = flush_body (targetDecode ''localhost'') ?cp ?tp ?gp 1699999990 example_metrics
          example_world"
    by (simp add: flush_eq_body m)
  have f0: "0 < failures (targetDecode ''localhost'') ?cp ?tp ?gp example_metrics"
    using f by simp
  have g0: "0 < failures (targetStatic ''web1'') ?cp ?bad ?gp example_metrics"
    using g by simp
  have i1: "concat (map (stat_items (targetDecode ''localhost'') ?cp) (counters example_metrics))
       @ concat (map (stat_items (targetDecode ''localhost'') ?tp) (timers example_metrics))
       @ concat (map (stat_items (targetDecode ''localhost'') ?gp) (gauges example_metrics)) =
     [\<lparr>item_host = ''web1'', item_key = ''requests[total]'', item_value = Num 20\<rparr>,
      \<lparr>item_host = ''web1'', item_key = ''requests[avg]'', item_value = Num 2\<rparr>,
      \<lparr>item_host = ''web1'', item_key = ''latency[lower]'', item_value = Num 1\<rparr>,
      \<lparr>item_host = ''web1'', item_key = ''latency[upper]'', item_value = Num 3\<rparr>,
      \<lparr>item_host = ''web1'', item_key = ''latency[count]'', item_value = Num 3\<rparr>,
      \<lparr>item_host = ''web1'', item_key = ''latency[mean][90]'', item_value = Num 2\<rparr>,
      \<lparr>item_host = ''web1'', item_key = ''latency[upper][90]'', item_value = Num 3\<rparr>,
      \<lparr>item_host = ''web1'', item_key = ''load'', item_value = Num 7\<rparr>,
      \<lparr>item_host = ''db1'', item_key = ''connections'', item_value = Num 8\<rparr>]"
    by (simp add: m stat_items_def example_decodes example_timer itemsForCounter_def
        itemsForGauge_def readSetting_def)
  have i2: "concat (map (stat_items (targetStatic ''web1'') ?cp) (counters example_metrics))
       @ concat (map (stat_items (targetStatic ''web1'') ?bad) (timers example_metrics))
       @ concat (map (stat_items (targetStatic ''web1'') ?gp) (gauges example_metrics)) =
     [\<lparr>item_host = ''web1'', item_key = ''web1_requests[total]'', item_value = Num 20\<rparr>,
      \<lparr>item_host = ''web1'', item_key = ''web1_requests[avg]'', item_value = Num 2\<rparr>,
      \<lparr>item_host = ''web1'', item_key = ''nounderscore[total]'', item_value = Num 1\<rparr>,
      \<lparr>item_host = ''web1'', item_key = ''nounderscore[avg]'', item_value = Num (1 / 10)\<rparr>,
      \<lparr>item_host = ''web1'', item_key = ''web1_load'', item_value = Num 7\<rparr>,
      \<lparr>item_host = ''web1'', item_key = ''db1_connections'', item_value = Num 8\<rparr>]"
    by (simp add: m stat_items_def targetStatic_def itemsForCounter_def
        itemsForGauge_def readSetting_def)
  note one = flush_isolates_failure [OF flush_body_triple f0 h, of 1699999990 example_world,
      unfolded f i1 c]
  note two = flush_isolates_failure [OF flush_body_triple g0 h, of 1699999990 example_world,
      unfolded g i2 c]
  show ?thesis
    unfolding e using one two f g by simp
qed

end
